theory Spec2Isabelle
  imports Main
begin

section \<open>Python values\<close>

text \<open>
  The two rules of ansible-lint verified here, \<open>var-naming\<close>
  (\<open>rules/VariableNamingRule.py\<close>) and \<open>command-instead-of-shell\<close>
  (\<open>rules/UseCommandInsteadOfShellRule.py\<close>), work on the tree a YAML file parses to:
  dictionaries, lists and scalars.

  A Python \<open>str\<close> is a sequence of Unicode code points, and is modelled as the list of
  its code points. \<open>str\<close> turns a literal of the source into that list.
\<close>

type_synonym pystr = "nat list"

definition str :: "string \<Rightarrow> pystr" where
  "str s = map of_char s"

text \<open>
  A dictionary keeps its insertion order, which is the order \<open>items()\<close> iterates in, so
  it is an association list. Keys are values too: YAML gives \<open>true\<close>, \<open>1\<close> or
  \<open>null\<close> as keys that are not strings.
\<close>

datatype pyval =
    PNone
  | PBool bool
  | PInt int
  | PStr pystr
  | PList "pyval list"
  | PDict "(pyval \<times> pyval) list"

type_synonym pydict = "(pyval \<times> pyval) list"

text \<open>The exceptions the two rules can raise, and the one a collaborator raises.\<close>

datatype error = AttributeError | KeyError | TypeError | UnicodeEncodeError | YAMLError

text \<open>
  A generator is consumed lazily: it yields some pairs and then either stops or raises.
  \<open>yield_from g k\<close> is \<open>yield from g\<close> followed by the rest \<open>k\<close> of the generator's body:
  when \<open>g\<close> raises, the rest never runs.
\<close>

datatype 'a gen = Stop | Raise error | Yield 'a "'a gen"

fun yield_from :: "'a gen \<Rightarrow> 'a gen \<Rightarrow> 'a gen" where
  "yield_from Stop k = k"
| "yield_from (Raise e) k = Raise e"
| "yield_from (Yield x g) k = Yield x (yield_from g k)"

text \<open>What a consumer that runs the generator to its end sees: the pairs, and how it ended.\<close>

fun yields :: "'a gen \<Rightarrow> 'a list" where
  "yields Stop = []"
| "yields (Raise e) = []"
| "yields (Yield x g) = x # yields g"

fun outcome :: "'a gen \<Rightarrow> error option" where
  "outcome Stop = None"
| "outcome (Raise e) = Some e"
| "outcome (Yield x g) = outcome g"

subsection \<open>Built-in operations the rules use\<close>

definition startswith :: "pystr \<Rightarrow> pystr \<Rightarrow> bool" where
  "startswith s p = (take (length p) s = p)"

definition endswith :: "pystr \<Rightarrow> pystr \<Rightarrow> bool" where
  "endswith s p = (length p \<le> length s \<and> drop (length s - length p) s = p)"

text \<open>\<open>s.encode('ascii')\<close>: the code points as bytes, or UnicodeEncodeError.\<close>

definition encode_ascii :: "pystr \<Rightarrow> error + nat list" where
  "encode_ascii s = (if list_all (\<lambda>c. c < 128) s then Inr s else Inl UnicodeEncodeError)"

text \<open>
  \<open>str.isidentifier()\<close>: not empty, the first character in XID\_Start or an underscore,
  the others in XID\_Continue. The two classes are given on the code points below 128
  (letters; letters, digits and the underscore). \<open>is_invalid_variable_name\<close> returns
  before it calls \<open>isidentifier\<close> on a string with any other code point, so the rest of
  the two Unicode tables is never read by this program and is left out.
\<close>

definition xid_start :: "nat \<Rightarrow> bool" where
  "xid_start c = ((65 \<le> c \<and> c \<le> 90) \<or> (97 \<le> c \<and> c \<le> 122))"

definition xid_continue :: "nat \<Rightarrow> bool" where
  "xid_continue c = (xid_start c \<or> (48 \<le> c \<and> c \<le> 57) \<or> c = 95)"

fun isidentifier :: "pystr \<Rightarrow> bool" where
  "isidentifier [] = False"
| "isidentifier (c # cs) = ((xid_start c \<or> c = 95) \<and> list_all xid_continue cs)"

text \<open>\<open>keyword.kwlist\<close> of CPython 3.7 and later; \<open>keyword.iskeyword\<close> is membership in it.\<close>

definition kwlist :: "pystr list" where
  "kwlist = map str
     [''False'', ''None'', ''True'', ''and'', ''as'', ''assert'', ''async'', ''await'',
      ''break'', ''class'', ''continue'', ''def'', ''del'', ''elif'', ''else'', ''except'',
      ''finally'', ''for'', ''from'', ''global'', ''if'', ''import'', ''in'', ''is'',
      ''lambda'', ''nonlocal'', ''not'', ''or'', ''pass'', ''raise'', ''return'', ''try'',
      ''while'', ''with'', ''yield'']"

definition iskeyword :: "pystr \<Rightarrow> bool" where
  "iskeyword s = (s \<in> set kwlist)"

text \<open>Truth value of an object, as \<open>if x\<close> and \<open>x and y\<close> test it.\<close>

fun truthy :: "pyval \<Rightarrow> bool" where
  "truthy PNone = False"
| "truthy (PBool b) = b"
| "truthy (PInt i) = (i \<noteq> 0)"
| "truthy (PStr s) = (s \<noteq> [])"
| "truthy (PList xs) = (xs \<noteq> [])"
| "truthy (PDict kvs) = (kvs \<noteq> [])"

text \<open>\<open>d.get(k, default)\<close> and \<open>d[k]\<close> for a string key \<open>k\<close>.\<close>

definition dict_get :: "pydict \<Rightarrow> pystr \<Rightarrow> pyval \<Rightarrow> pyval" where
  "dict_get d k dflt = (case map_of d (PStr k) of None \<Rightarrow> dflt | Some v \<Rightarrow> v)"

fun getitem :: "pyval \<Rightarrow> pystr \<Rightarrow> error + pyval" where
  "getitem (PDict d) k = (case map_of d (PStr k) of None \<Rightarrow> Inl KeyError | Some v \<Rightarrow> Inr v)"
| "getitem _ k = Inl TypeError"

text \<open>\<open>a + b\<close> where \<open>a\<close> is a string: \<open>b\<close> has to be one too.\<close>

fun str_add :: "pystr \<Rightarrow> pyval \<Rightarrow> error + pystr" where
  "str_add a (PStr b) = Inr (a @ b)"
| "str_add a _ = Inl TypeError"

text \<open>
  \<open>sep.join(x)\<close>: \<open>x\<close> is iterated (a list gives its elements, a string its characters,
  a dictionary its keys) and every item has to be a string.
\<close>

fun intercalate :: "pystr \<Rightarrow> pystr list \<Rightarrow> pystr" where
  "intercalate sep [] = []"
| "intercalate sep [s] = s"
| "intercalate sep (s # t # ss) = s @ sep @ intercalate sep (t # ss)"

fun str_items :: "pyval list \<Rightarrow> error + pystr list" where
  "str_items [] = Inr []"
| "str_items (PStr s # xs) =
     (case str_items xs of Inl e \<Rightarrow> Inl e | Inr ss \<Rightarrow> Inr (s # ss))"
| "str_items (_ # xs) = Inl TypeError"

fun join :: "pystr \<Rightarrow> pyval \<Rightarrow> error + pystr" where
  "join sep (PList xs) =
     (case str_items xs of Inl e \<Rightarrow> Inl e | Inr ss \<Rightarrow> Inr (intercalate sep ss))"
| "join sep (PStr s) = Inr (intercalate sep (map (\<lambda>c. [c]) s))"
| "join sep (PDict d) =
     (case str_items (map fst d) of Inl e \<Rightarrow> Inl e | Inr ss \<Rightarrow> Inr (intercalate sep ss))"
| "join sep _ = Inl TypeError"

section \<open>VariableNamingRule.py\<close>

text \<open>
  \<open>is_property(k)\<close>: \<open>k.startswith('__') and k.endswith('__')\<close>. Only a string has the
  two methods.
\<close>

fun is_property :: "pyval \<Rightarrow> error + bool" where
  "is_property (PStr k) = Inr (startswith k (str ''__'') \<and> endswith k (str ''__''))"
| "is_property _ = Inl AttributeError"

text \<open>
  \<open>is_invalid_variable_name(ident)\<close>, with its four early returns. The \<open>except\<close>
  clause catches UnicodeEncodeError only.
\<close>

definition is_invalid_variable_name :: "pyval \<Rightarrow> error + bool" where
  "is_invalid_variable_name ident =
     (case ident of
        PStr s \<Rightarrow>
          (case encode_ascii s of
             Inl UnicodeEncodeError \<Rightarrow> Inr False
           | Inl e \<Rightarrow> Inl e
           | Inr _ \<Rightarrow>
               if \<not> isidentifier s then Inr False
               else if iskeyword s then Inr False
               else Inr True)
      | _ \<Rightarrow> Inr False)"

text \<open>
  \<open>VariableNamingRule.recursive_items(dictionary)\<close>. \<open>items_loop\<close> is the \<open>for\<close> loop
  over \<open>dictionary.items()\<close>, which only a dictionary has.
\<close>

fun is_dict :: "pyval \<Rightarrow> bool" where
  "is_dict (PDict d) = True"
| "is_dict _ = False"

fun recursive_items :: "pyval \<Rightarrow> (pyval \<times> pyval) gen"
  and items_loop :: "pydict \<Rightarrow> (pyval \<times> pyval) gen" where
  "recursive_items (PDict d) = items_loop d"
| "recursive_items _ = Raise AttributeError"
| "items_loop [] = Stop"
| "items_loop ((key, value) # rest) =
     (case is_property key of
        Inl e \<Rightarrow> Raise e
      | Inr True \<Rightarrow> items_loop rest
      | Inr False \<Rightarrow>
          if is_dict value
          then Yield (key, value) (yield_from (recursive_items value) (items_loop rest))
          else Yield (key, value) (items_loop rest))"

text \<open>
  A Lintable carries the path and the kind of a file. \<open>create_matcherror\<close> is inherited
  from AnsibleLintRule; the model keeps the arguments it is called with, and
  \<open>linenumber\<close> is None when the caller passes none.
\<close>

record Lintable =
  path :: pystr
  kind :: pystr

record MatchError =
  filename :: Lintable
  linenumber :: "pyval option"
  message :: pystr

definition create_matcherror :: "Lintable \<Rightarrow> pyval option \<Rightarrow> pystr \<Rightarrow> MatchError" where
  "create_matcherror file ln msg = \<lparr>filename = file, linenumber = ln, message = msg\<rparr>"

text \<open>
  \<open>VariableNamingRule.matchplay(file, data)\<close>. \<open>matchplay_loop\<close> is its \<open>for\<close> loop,
  with \<open>results\<close> as the list built so far. The arguments of \<open>create_matcherror\<close> are
  evaluated left to right: the line lookup, then the message. An apostrophe is code
  point 39.
\<close>

fun matchplay_loop ::
  "Lintable \<Rightarrow> pyval \<Rightarrow> MatchError list \<Rightarrow> (pyval \<times> pyval) gen \<Rightarrow> error + MatchError list"
where
  "matchplay_loop file our_vars results Stop = Inr results"
| "matchplay_loop file our_vars results (Raise e) = Inl e"
| "matchplay_loop file our_vars results (Yield (key, value) g) =
     (case is_invalid_variable_name key of
        Inl e \<Rightarrow> Inl e
      | Inr False \<Rightarrow> matchplay_loop file our_vars results g
      | Inr True \<Rightarrow>
          (case getitem our_vars (str ''__line__'') of
             Inl e \<Rightarrow> Inl e
           | Inr ln \<Rightarrow>
               (case str_add (str ''Play defines variable '' @ [39]) key of
                  Inl e \<Rightarrow> Inl e
                | Inr m \<Rightarrow>
                    matchplay_loop file our_vars
                      (results @
                       [create_matcherror file (Some ln)
                          (m @ [39] @
                           str '' within 'vars' section that violates variable naming standards'')])
                      g)))"

definition matchplay :: "Lintable \<Rightarrow> pydict \<Rightarrow> error + MatchError list" where
  "matchplay file data =
     (let our_vars = dict_get data (str ''vars'') (PDict [])
      in matchplay_loop file our_vars [] (recursive_items our_vars))"

text \<open>
  \<open>VariableNamingRule.matchtask(task, file)\<close>. Its two loops have the same body,
  \<open>if is_invalid_variable_name(key): return ...\<close>; \<open>returns_in_loop\<close> runs such a loop
  and tells whether the body returned. The generator is advanced only as far as the
  loop gets.
\<close>

fun returns_in_loop :: "(pyval \<times> pyval) gen \<Rightarrow> error + bool" where
  "returns_in_loop Stop = Inr False"
| "returns_in_loop (Raise e) = Inl e"
| "returns_in_loop (Yield (key, value) g) =
     (case is_invalid_variable_name key of
        Inl e \<Rightarrow> Inl e
      | Inr True \<Rightarrow> Inr True
      | Inr False \<Rightarrow> returns_in_loop g)"

definition vars_message :: pystr where
  "vars_message =
     str ''Task defines variables within 'vars' section that violates variable naming standards''"

definition set_fact_message :: pystr where
  "set_fact_message =
     str ''Task uses 'set_fact' to define variables that violates variable naming standards''"

definition register_message :: pystr where
  "register_message = str ''Task registers a variable that violates variable naming standards''"

definition VariableNamingRule_matchtask :: "pydict \<Rightarrow> error + pyval" where
  "VariableNamingRule_matchtask task =
     (let our_vars = dict_get task (str ''vars'') (PDict [])
      in case returns_in_loop (recursive_items our_vars) of
           Inl e \<Rightarrow> Inl e
         | Inr True \<Rightarrow> Inr (PStr vars_message)
         | Inr False \<Rightarrow>
             (case getitem (PDict task) (str ''action'') of
                Inl e \<Rightarrow> Inl e
              | Inr ansible_action \<Rightarrow>
                  (case getitem ansible_action (str ''__ansible_module__'') of
                     Inl e \<Rightarrow> Inl e
                   | Inr ansible_module \<Rightarrow>
                       (case (if ansible_module = PStr (str ''set_fact'')
                              then returns_in_loop (recursive_items ansible_action)
                              else Inr False) of
                          Inl e \<Rightarrow> Inl e
                        | Inr True \<Rightarrow> Inr (PStr set_fact_message)
                        | Inr False \<Rightarrow>
                            (let registered_var = dict_get task (str ''register'') PNone
                             in if truthy registered_var
                                then (case is_invalid_variable_name registered_var of
                                        Inl e \<Rightarrow> Inl e
                                      | Inr True \<Rightarrow> Inr (PStr register_message)
                                      | Inr False \<Rightarrow> Inr (PBool False))
                                else Inr (PBool False))))))"

text \<open>
  \<open>VariableNamingRule.matchyaml(file)\<close>. \<open>parse_yaml_from_file\<close> (ansiblelint.utils) and
  the \<open>matchyaml\<close> of the base class are not part of the two files: they are
  parameters. \<open>str(file.path)\<close> is the path as the Lintable holds it.
\<close>

fun matchyaml_loop ::
  "Lintable \<Rightarrow> MatchError list \<Rightarrow> (pyval \<times> pyval) gen \<Rightarrow> error + MatchError list"
where
  "matchyaml_loop file results Stop = Inr results"
| "matchyaml_loop file results (Raise e) = Inl e"
| "matchyaml_loop file results (Yield (key, value) g) =
     (case is_invalid_variable_name key of
        Inl e \<Rightarrow> Inl e
      | Inr False \<Rightarrow> matchyaml_loop file results g
      | Inr True \<Rightarrow>
          (case str_add (str ''File defines variable '' @ [39]) key of
             Inl e \<Rightarrow> Inl e
           | Inr m \<Rightarrow>
               matchyaml_loop file
                 (results @
                  [create_matcherror file None
                     (m @ [39] @ str '' that violates variable naming standards'')])
                 g))"

definition matchyaml ::
  "(pystr \<Rightarrow> error + pyval) \<Rightarrow> (Lintable \<Rightarrow> error + MatchError list) \<Rightarrow> Lintable
     \<Rightarrow> error + MatchError list"
where
  "matchyaml parse_yaml_from_file super_matchyaml file =
     (if kind file = str ''vars''
      then (case parse_yaml_from_file (path file) of
              Inl e \<Rightarrow> Inl e
            | Inr meta_data \<Rightarrow> matchyaml_loop file [] (recursive_items meta_data))
      else (case super_matchyaml file of
              Inl e \<Rightarrow> Inl e
            | Inr ms \<Rightarrow> Inr ([] @ ms)))"

section \<open>UseCommandInsteadOfShellRule.py\<close>

text \<open>
  \<open>UseCommandInsteadOfShellRule.matchtask(task, file)\<close>. \<open>unjinja\<close> is inherited from
  AnsibleLintRule and is a parameter: it takes the text and gives the text without its
  templates, or raises. \<open>ch in unjinjad_cmd\<close> for a string \<open>ch\<close> of one character is
  membership of that character. The newline is code point 10. Once
  \<open>task["action"]["__ansible_module__"]\<close> has been read, \<open>task["action"]\<close> is a
  dictionary, so the last branch of the case on \<open>action\<close> is never taken.
\<close>

definition shell_chars :: pystr where
  "shell_chars = str ''&|<>;$'' @ [10] @ str ''*[]{}?`''"

definition UseCommandInsteadOfShellRule_matchtask ::
  "(pyval \<Rightarrow> error + pystr) \<Rightarrow> pydict \<Rightarrow> error + pyval"
where
  "UseCommandInsteadOfShellRule_matchtask unjinja task =
     (case getitem (PDict task) (str ''action'') of
        Inl e \<Rightarrow> Inl e
      | Inr action \<Rightarrow>
          (case getitem action (str ''__ansible_module__'') of
             Inl e \<Rightarrow> Inl e
           | Inr ansible_module \<Rightarrow>
               if ansible_module = PStr (str ''shell'')
               then (case action of
                       PDict a \<Rightarrow>
                         (case (if map_of a (PStr (str ''cmd'')) \<noteq> None
                                then unjinja (dict_get a (str ''cmd'') (PList []))
                                else (case join (str '' '')
                                             (dict_get a (str ''__ansible_arguments__'') (PList [])) of
                                        Inl e \<Rightarrow> Inl e
                                      | Inr joined \<Rightarrow> unjinja (PStr joined))) of
                            Inl e \<Rightarrow> Inl e
                          | Inr unjinjad_cmd \<Rightarrow>
                              Inr (PBool (\<not> list_ex (\<lambda>b. b)
                                             (map (\<lambda>ch. ch \<in> set unjinjad_cmd) shell_chars))))
                     | _ \<Rightarrow> Inl TypeError)
               else Inr (PBool False)))"

section \<open>Definitions used to state the properties\<close>

subsection \<open>The identifier rule in the words of the specification\<close>

text \<open>
  The specification asks for a string of 7-bit characters that follows the identifier
  syntax (letters, digits and underscores, not starting with a digit, not empty) and is
  not a reserved keyword.
\<close>

definition letter :: "nat \<Rightarrow> bool" where
  "letter c = ((65 \<le> c \<and> c \<le> 90) \<or> (97 \<le> c \<and> c \<le> 122))"

definition digit :: "nat \<Rightarrow> bool" where
  "digit c = (48 \<le> c \<and> c \<le> 57)"

definition identifier_syntax :: "pystr \<Rightarrow> bool" where
  "identifier_syntax s =
     (s \<noteq> [] \<and> list_all (\<lambda>c. letter c \<or> digit c \<or> c = 95) s \<and> \<not> digit (hd s))"

definition valid_identifier :: "pyval \<Rightarrow> bool" where
  "valid_identifier x =
     (case x of
        PStr s \<Rightarrow> list_all (\<lambda>c. c < 128) s \<and> identifier_syntax s \<and> s \<notin> set kwlist
      | _ \<Rightarrow> False)"

subsection \<open>Findings\<close>

fun str_of :: "pyval \<Rightarrow> pystr" where
  "str_of (PStr s) = s"
| "str_of _ = []"

definition play_finding :: "Lintable \<Rightarrow> pyval \<Rightarrow> pyval \<Rightarrow> MatchError" where
  "play_finding file ln key =
     \<lparr>filename = file, linenumber = Some ln,
      message = str ''Play defines variable '' @ [39] @ str_of key @ [39] @
                str '' within 'vars' section that violates variable naming standards''\<rparr>"

definition file_finding :: "Lintable \<Rightarrow> pyval \<Rightarrow> MatchError" where
  "file_finding file key =
     \<lparr>filename = file, linenumber = None,
      message = str ''File defines variable '' @ [39] @ str_of key @ [39] @
                str '' that violates variable naming standards''\<rparr>"

subsection \<open>The visible part of a mapping\<close>

text \<open>
  \<open>visible\<close> removes, at every depth, the entries whose key is an internal property,
  together with all that lies under them. \<open>gen_map\<close> applies a function to every pair
  a generator yields. \<open>str_keys\<close> holds of a tree in which every key of every mapping
  that the walk can reach is a string, as the annotation \<open>Dict[str, Any]\<close> asks.
\<close>

fun visible :: "pyval \<Rightarrow> pyval"
  and visible_items :: "pydict \<Rightarrow> pydict" where
  "visible (PDict d) = PDict (visible_items d)"
| "visible v = v"
| "visible_items [] = []"
| "visible_items ((key, value) # rest) =
     (if is_property key = Inr True then visible_items rest
      else (key, visible value) # visible_items rest)"

fun gen_map :: "('a \<Rightarrow> 'b) \<Rightarrow> 'a gen \<Rightarrow> 'b gen" where
  "gen_map f Stop = Stop"
| "gen_map f (Raise e) = Raise e"
| "gen_map f (Yield x g) = Yield (f x) (gen_map f g)"

fun is_str :: "pyval \<Rightarrow> bool" where
  "is_str (PStr s) = True"
| "is_str _ = False"

fun str_keys :: "pyval \<Rightarrow> bool"
  and str_keys_items :: "pydict \<Rightarrow> bool" where
  "str_keys (PDict d) = str_keys_items d"
| "str_keys v = True"
| "str_keys_items [] = True"
| "str_keys_items ((key, value) # rest) =
     ((case key of PStr s \<Rightarrow> True | _ \<Rightarrow> False) \<and> str_keys value \<and> str_keys_items rest)"

subsection \<open>Concrete documents\<close>

text \<open>
  \<open>FAIL_PLAY\<close> is the fixture of the rule's own test as the YAML loader gives it: a
  list of one play, the key \<open>true\<close> of its \<open>vars\<close> read as the boolean, and the line of
  every mapping under \<open>__line__\<close>. \<open>vars_document\<close> is a variables file with one name
  that follows the naming rule and one that does not.
\<close>

definition playbook_file :: Lintable where
  "playbook_file = \<lparr>path = str ''playbook.yml'', kind = str ''playbook''\<rparr>"

definition vars_file :: Lintable where
  "vars_file = \<lparr>path = str ''vars.yml'', kind = str ''vars''\<rparr>"

definition FAIL_PLAY :: "pydict list" where
  "FAIL_PLAY =
     [[(PStr (str ''hosts''), PStr (str ''localhost'')),
       (PStr (str ''vars''), PDict [(PBool True, PBool False), (PStr (str ''__line__''), PInt 4)]),
       (PStr (str ''__line__''), PInt 2)]]"

definition vars_document :: pyval where
  "vars_document =
     PDict [(PStr (str ''valid_name''), PInt 1),
            (PStr (str ''2bad''), PInt 2),
            (PStr (str ''__line__''), PInt 1)]"

definition example_mapping :: pyval where
  "example_mapping =
     PDict [(PStr (str ''a''),
             PDict [(PStr (str ''__line__''), PInt 4),
                    (PStr (str ''b''), PDict [(PStr (str ''c''), PInt 1)])])]"

text \<open>
  A mapping with a nested mapping under an internal key, the \<open>vars\<close> mapping of
  \<open>FAIL_PLAY\<close>, and two plays, one without a \<open>vars\<close> section and one with.
\<close>

definition internal_subtree_mapping :: pydict where
  "internal_subtree_mapping =
     [(PStr (str ''__meta__''), PDict [(PStr (str ''x''), PInt 1)]),
      (PStr (str ''a''), PInt 2)]"

definition bool_key_vars :: pyval where
  "bool_key_vars = PDict [(PBool True, PBool False), (PStr (str ''__line__''), PInt 4)]"

definition play_without_vars :: pydict where
  "play_without_vars =
     [(PStr (str ''hosts''), PStr (str ''localhost'')), (PStr (str ''__line__''), PInt 2)]"

definition play_with_vars :: pydict where
  "play_with_vars =
     [(PStr (str ''hosts''), PStr (str ''localhost'')),
      (PStr (str ''vars''), PDict [(PStr (str ''BadName''), PInt 1), (PStr (str ''__line__''), PInt 4)]),
      (PStr (str ''__line__''), PInt 2)]"

subsection \<open>Tasks\<close>

text \<open>
  \<open>reaches_valid_key d\<close>: the walk of \<open>d\<close> yields a key that is a valid identifier,
  one that follows the naming rule. The tasks are as ansible-lint normalises them: the
  module and its free-form arguments sit in \<open>action\<close> under internal keys.
\<close>

definition reaches_valid_key :: "pyval \<Rightarrow> bool" where
  "reaches_valid_key d =
     list_ex (\<lambda>p. valid_identifier (fst p)) (yields (recursive_items d))"

definition command_action :: pyval where
  "command_action =
     PDict [(PStr (str ''__ansible_module__''), PStr (str ''command'')),
            (PStr (str ''__ansible_arguments__''), PList [PStr (str ''ls'')])]"

definition task_vars_and_register :: pydict where
  "task_vars_and_register =
     [(PStr (str ''vars''), PDict [(PStr (str ''BadName''), PInt 1), (PStr (str ''__line__''), PInt 3)]),
      (PStr (str ''register''), PStr (str ''BadName'')),
      (PStr (str ''action''), command_action),
      (PStr (str ''__line__''), PInt 2)]"

definition set_fact_action :: pyval where
  "set_fact_action =
     PDict [(PStr (str ''__ansible_module__''), PStr (str ''set_fact'')),
            (PStr (str ''__ansible_arguments__''), PList []),
            (PStr (str ''my_fact''), PInt 1)]"

definition task_set_fact :: pydict where
  "task_set_fact =
     [(PStr (str ''action''), set_fact_action), (PStr (str ''__line__''), PInt 2)]"

definition task_register :: pydict where
  "task_register =
     [(PStr (str ''action''), command_action),
      (PStr (str ''register''), PStr (str ''BadName'')),
      (PStr (str ''__line__''), PInt 2)]"

text \<open>
  Two tasks with names that break the naming rule: \<open>2bad\<close> starts with a digit and
  \<open>bad-name\<close> has a hyphen. The first has such a name in its \<open>vars\<close> and as its
  \<open>register\<close> target; the second has one in its \<open>vars\<close> and registers the valid
  \<open>good_name\<close>.
\<close>

definition task_invalid_vars_and_register :: pydict where
  "task_invalid_vars_and_register =
     [(PStr (str ''vars''), PDict [(PStr (str ''2bad''), PInt 1), (PStr (str ''__line__''), PInt 3)]),
      (PStr (str ''register''), PStr (str ''2bad'')),
      (PStr (str ''action''), command_action),
      (PStr (str ''__line__''), PInt 2)]"

definition task_invalid_vars_valid_register :: pydict where
  "task_invalid_vars_valid_register =
     [(PStr (str ''vars''), PDict [(PStr (str ''bad-name''), PInt 1), (PStr (str ''__line__''), PInt 3)]),
      (PStr (str ''register''), PStr (str ''good_name'')),
      (PStr (str ''action''), command_action),
      (PStr (str ''__line__''), PInt 2)]"

text \<open>
  A normaliser for commands without templates: it gives a string back as it is, and
  raises on anything else, as \<open>re.sub\<close> does.
\<close>

definition no_templates :: "pyval \<Rightarrow> error + pystr" where
  "no_templates x = (case x of PStr s \<Rightarrow> Inr s | _ \<Rightarrow> Inl TypeError)"

definition shell_cmd_task :: "string \<Rightarrow> pydict" where
  "shell_cmd_task c =
     [(PStr (str ''action''),
       PDict [(PStr (str ''__ansible_module__''), PStr (str ''shell'')),
              (PStr (str ''cmd''), PStr (str c))]),
      (PStr (str ''__line__''), PInt 2)]"

definition shell_args_task :: pydict where
  "shell_args_task =
     [(PStr (str ''action''),
       PDict [(PStr (str ''__ansible_module__''), PStr (str ''shell'')),
              (PStr (str ''__ansible_arguments__''), PList [PStr (str ''echo''), PStr (str ''hello'')])]),
      (PStr (str ''__line__''), PInt 2)]"

definition command_task :: pydict where
  "command_task =
     [(PStr (str ''action''),
       PDict [(PStr (str ''__ansible_module__''), PStr (str ''command'')),
              (PStr (str ''cmd''), PStr (str ''echo hello | wc -l''))]),
      (PStr (str ''__line__''), PInt 2)]"

section \<open>Generators\<close>

lemma yields_yield_from:
  "yields (yield_from g k) = yields g @ (case outcome g of None \<Rightarrow> yields k | Some e \<Rightarrow> [])"
  by (induction g) simp_all

lemma outcome_yield_from:
  "outcome (yield_from g k) = (case outcome g of None \<Rightarrow> outcome k | Some e \<Rightarrow> Some e)"
  by (induction g) simp_all

lemma yield_from_assoc: "yield_from (yield_from g h) k = yield_from g (yield_from h k)"
  by (induction g) simp_all

lemma set_yields_yield_from: "set (yields (yield_from g k)) \<subseteq> set (yields g) \<union> set (yields k)"
  by (auto simp: yields_yield_from split: option.splits)

lemma gen_map_yield_from: "gen_map f (yield_from g k) = yield_from (gen_map f g) (gen_map f k)"
  by (induction g) simp_all

section \<open>The identifier validator\<close>

lemmas eval_defs =
  str_def startswith_def endswith_def is_invalid_variable_name_def encode_ascii_def
  iskeyword_def kwlist_def xid_start_def xid_continue_def dict_get_def create_matcherror_def

lemma isidentifier_syntax: "isidentifier s = identifier_syntax s"
  by (cases s)
     (auto simp: identifier_syntax_def letter_def digit_def xid_start_def xid_continue_def
        list_all_iff)

lemma is_invalid_variable_name_total:
  "is_invalid_variable_name x = Inr (valid_identifier x)"
  by (cases x)
     (simp_all add: is_invalid_variable_name_def valid_identifier_def encode_ascii_def
        iskeyword_def isidentifier_syntax)

lemma valid_identifier_str: "valid_identifier k \<Longrightarrow> k = PStr (str_of k)"
  by (cases k) (simp_all add: valid_identifier_def)

text \<open>
  C2. \<open>is_invalid_variable_name\<close> never raises and returns a boolean for every input:
  True exactly for a string of 7-bit characters that has the identifier syntax and is
  not a keyword. It is False for the number 123, for \<open>2bad\<close>, for \<open>class\<close> and for
  \<open>hello\<close> spelt with an e acute (code point 233), and True for \<open>valid_name\<close>.
\<close>

theorem is_invalid_variable_name_true_iff_valid:
  "is_invalid_variable_name x = Inr (valid_identifier x) \<and>
   is_invalid_variable_name (PInt 123) = Inr False \<and>
   is_invalid_variable_name (PStr (str ''2bad'')) = Inr False \<and>
   is_invalid_variable_name (PStr (str ''class'')) = Inr False \<and>
   is_invalid_variable_name (PStr (str ''h'' @ [233] @ str ''llo'')) = Inr False \<and>
   is_invalid_variable_name (PStr (str ''valid_name'')) = Inr True"
proof -
  have "is_invalid_variable_name (PInt 123) = Inr False"
    by (simp add: is_invalid_variable_name_def)
  moreover have "is_invalid_variable_name (PStr (str ''2bad'')) = Inr False"
    by (simp add: eval_defs)
  moreover have "is_invalid_variable_name (PStr (str ''class'')) = Inr False"
    by (simp add: eval_defs)
  moreover have "is_invalid_variable_name (PStr (str ''h'' @ [233] @ str ''llo'')) = Inr False"
    by (simp add: eval_defs)
  moreover have "is_invalid_variable_name (PStr (str ''valid_name'')) = Inr True"
    by (simp add: eval_defs)
  ultimately show ?thesis
    using is_invalid_variable_name_total [of x] by simp
qed

section \<open>The recursive key walker\<close>

lemmas walk_defs = str_def startswith_def endswith_def

lemma is_property_line: "is_property (PStr (str ''__line__'')) = Inr True"
  by (simp add: str_def startswith_def endswith_def)

lemma is_property_m: "is_property (PStr (str ''__ansible_module__'')) = Inr True"
  by (simp add: str_def startswith_def endswith_def)

lemma is_property_a: "is_property (PStr (str ''__ansible_arguments__'')) = Inr True"
  by (simp add: str_def startswith_def endswith_def)

lemma is_property_str: "\<exists>b. is_property (PStr s) = Inr b"
  by simp

lemma is_property_error: "is_property k = Inl e \<Longrightarrow> e = AttributeError"
  by (cases k) simp_all

lemma items_loop_append:
  "items_loop (xs @ ys) = yield_from (items_loop xs) (items_loop ys)"
proof (induction xs)
  case Nil
  show ?case by simp
next
  case (Cons p xs)
  obtain k v where p: "p = (k, v)" by (cases p)
  show ?case
    using Cons
    by (cases "is_property k") (auto simp: p yield_from_assoc split: bool.splits)
qed

lemma yielded_not_property:
  "\<forall>p \<in> set (yields (recursive_items d)). is_property (fst p) = Inr False"
  and yielded_not_property_items:
    "\<forall>p \<in> set (yields (items_loop kvs)). is_property (fst p) = Inr False"
proof (induction d and kvs rule: recursive_items_items_loop.induct)
  case (4 key "value" rest)
  show ?case
  proof (cases "is_property key")
    case (Inl e)
    then show ?thesis by simp
  next
    case (Inr b)
    show ?thesis
    proof (cases b)
      case True
      with Inr 4 show ?thesis by simp
    next
      case False
      have sub: "set (yields (yield_from (recursive_items value) (items_loop rest)))
                   \<subseteq> set (yields (recursive_items value)) \<union> set (yields (items_loop rest))"
        by (rule set_yields_yield_from)
      show ?thesis
      proof (cases "is_dict value")
        case True
        have "\<forall>p \<in> set (yields (recursive_items value)). is_property (fst p) = Inr False"
          and "\<forall>p \<in> set (yields (items_loop rest)). is_property (fst p) = Inr False"
          using "4.IH"(2,3) Inr False True by simp_all
        with sub have "\<forall>p \<in> set (yields (yield_from (recursive_items value) (items_loop rest))).
                         is_property (fst p) = Inr False"
          by blast
        with Inr False True show ?thesis by simp
      next
        case nd: False
        with Inr False 4 show ?thesis by simp
      qed
    qed
  qed
qed simp_all

lemma walk_error:
  "outcome (recursive_items d) = Some e \<Longrightarrow> e = AttributeError"
  and walk_error_items: "outcome (items_loop kvs) = Some e \<Longrightarrow> e = AttributeError"
proof (induction d and kvs rule: recursive_items_items_loop.induct)
  case (4 key "value" rest)
  show ?case
  proof (cases "is_property key")
    case (Inl e')
    with "4.prems" show ?thesis by (simp add: is_property_error)
  next
    case (Inr b)
    show ?thesis
    proof (cases b)
      case True
      with Inr 4 show ?thesis by simp
    next
      case False
      with Inr 4 show ?thesis
        by (cases "is_dict value") (auto simp: outcome_yield_from split: option.splits)
    qed
  qed
qed simp_all

lemma str_keys_total:
  "str_keys d \<Longrightarrow> is_dict d \<Longrightarrow> outcome (recursive_items d) = None"
  and str_keys_items_total: "str_keys_items kvs \<Longrightarrow> outcome (items_loop kvs) = None"
proof (induction d and kvs rule: recursive_items_items_loop.induct)
  case (4 key "value" rest)
  from "4.prems" obtain s where k: "key = PStr s" by (cases key) simp_all
  from "4.prems" have sv: "str_keys value" and sr: "str_keys_items rest" by simp_all
  obtain b where b: "is_property key = Inr b" using k is_property_str by blast
  show ?case
  proof (cases b)
    case True
    with b sr "4.IH" show ?thesis by simp
  next
    case False
    with b sv sr "4.IH" show ?thesis
      by (cases "is_dict value") (simp_all add: outcome_yield_from)
  qed
qed simp_all

lemma nonstr_key_raises:
  assumes "(k, v) \<in> set kvs" and "is_property k = Inl e"
  shows "outcome (recursive_items (PDict kvs)) = Some AttributeError"
proof -
  have "outcome (items_loop kvs) \<noteq> None"
    using assms(1)
  proof (induction kvs)
    case Nil
    then show ?case by simp
  next
    case (Cons p kvs)
    obtain k' v' where p: "p = (k', v')" by (cases p)
    show ?case
    proof (cases "is_property k'")
      case (Inl e')
      then show ?thesis by (simp add: p)
    next
      case (Inr b)
      with assms(2) have "k' \<noteq> k" by auto
      with Cons p have IH: "outcome (items_loop kvs) \<noteq> None" by auto
      with Inr show ?thesis
        by (cases b; cases "is_dict v'") (auto simp: p outcome_yield_from split: option.splits)
    qed
  qed
  then obtain e' where "outcome (items_loop kvs) = Some e'" by auto
  then show ?thesis using walk_error_items [of kvs e'] by simp
qed

lemma skip_internal:
  assumes "is_property k = Inr True"
  shows "recursive_items (PDict (xs @ (k, v) # ys)) = recursive_items (PDict (xs @ ys))"
  using assms by (simp add: items_loop_append)

lemma preorder_yields:
  assumes "is_property k = Inr False"
    and "outcome (recursive_items (PDict (xs @ (k, v) # ys))) = None"
  shows "yields (recursive_items (PDict (xs @ (k, v) # ys))) =
         yields (recursive_items (PDict xs)) @ (k, v) #
           (if is_dict v then yields (recursive_items v) else []) @
           yields (recursive_items (PDict ys))"
  using assms
  by (auto simp: items_loop_append yields_yield_from outcome_yield_from split: option.splits)

lemma is_dict_visible: "is_dict (visible v) = is_dict v"
  by (cases v) simp_all

lemma walk_visible:
  "recursive_items (visible d) = gen_map (\<lambda>(k, v). (k, visible v)) (recursive_items d)"
  and walk_visible_items: "items_loop (visible_items kvs) = gen_map (\<lambda>(k, v). (k, visible v)) (items_loop kvs)"
proof (induction d and kvs rule: recursive_items_items_loop.induct)
  case (4 key "value" rest)
  show ?case
  proof (cases "is_property key")
    case (Inl e)
    then show ?thesis by simp
  next
    case (Inr b)
    with 4 show ?thesis
      by (cases b) (simp_all add: is_dict_visible gen_map_yield_from)
  qed
qed simp_all

text \<open>
  C6. For every value \<open>d\<close>, at every depth of nesting, each pair that
  \<open>recursive_items d\<close> yields has a key on which \<open>is_property\<close> is False. The keys
  \<open>__line__\<close>, \<open>__ansible_module__\<close> and \<open>__ansible_arguments__\<close> are internal
  properties, so the walk never yields them.
\<close>

theorem recursive_items_never_yields_property:
  "(p \<in> set (yields (recursive_items d)) \<longrightarrow> is_property (fst p) = Inr False) \<and>
   PStr (str ''__line__'') \<notin> fst ` set (yields (recursive_items d)) \<and>
   PStr (str ''__ansible_module__'') \<notin> fst ` set (yields (recursive_items d)) \<and>
   PStr (str ''__ansible_arguments__'') \<notin> fst ` set (yields (recursive_items d))"
proof -
  have all: "\<forall>p \<in> set (yields (recursive_items d)). is_property (fst p) = Inr False"
    by (rule yielded_not_property)
  have "k \<notin> fst ` set (yields (recursive_items d))" if "is_property k = Inr True" for k
  proof
    assume "k \<in> fst ` set (yields (recursive_items d))"
    then obtain p where "p \<in> set (yields (recursive_items d))" and "fst p = k" by auto
    with all have "is_property k = Inr False" by auto
    with that show False by simp
  qed
  with all is_property_line is_property_m is_property_a show ?thesis by blast
qed

theorem recursive_items_never_yields_property_witness:
  "(PStr (str ''b''), PDict [(PStr (str ''c''), PInt 1)])
     \<in> set (yields (recursive_items example_mapping)) \<and>
   is_property (fst (PStr (str ''b''), PDict [(PStr (str ''c''), PInt 1)])) = Inr False"
  using recursive_items_never_yields_property
          [of "(PStr (str ''b''), PDict [(PStr (str ''c''), PInt 1)])" example_mapping]
  by (simp add: example_mapping_def walk_defs)

text \<open>
  C7. The walk is depth-first and in pre-order. Take any entry \<open>(k, v)\<close> of a mapping
  whose key is not an internal property, with the entries \<open>xs\<close> before it and \<open>ys\<close>
  after it, and let the walk run to its end. Then the walk yields what the entries
  before yield, then the pair \<open>(k, v)\<close> itself, then at once the whole walk of \<open>v\<close> when
  \<open>v\<close> is a mapping, and only then what the entries after yield. Every such pair is
  therefore yielded, a parent before its children and the children before the later
  siblings; the pairs left out are those under internal keys, as in the example. The
  walk of a mapping whose keys are strings always runs to its end, and the walk of
  \<open>{a: {__line__: 4, b: {c: 1}}}\<close> yields exactly \<open>(a, {...})\<close>, \<open>(b, {...})\<close>, \<open>(c, 1)\<close>.
\<close>

theorem recursive_items_preorder:
  "(is_property k = Inr False \<and> outcome (recursive_items (PDict (xs @ (k, v) # ys))) = None \<longrightarrow>
      yields (recursive_items (PDict (xs @ (k, v) # ys))) =
        yields (recursive_items (PDict xs)) @ (k, v) #
          (if is_dict v then yields (recursive_items v) else []) @
          yields (recursive_items (PDict ys)) \<and>
      (k, v) \<in> set (yields (recursive_items (PDict (xs @ (k, v) # ys))))) \<and>
   (str_keys d \<and> is_dict d \<longrightarrow> outcome (recursive_items d) = None) \<and>
   recursive_items example_mapping =
     Yield (PStr (str ''a''),
            PDict [(PStr (str ''__line__''), PInt 4),
                   (PStr (str ''b''), PDict [(PStr (str ''c''), PInt 1)])])
       (Yield (PStr (str ''b''), PDict [(PStr (str ''c''), PInt 1)])
          (Yield (PStr (str ''c''), PInt 1) Stop))"
proof -
  have "recursive_items example_mapping =
     Yield (PStr (str ''a''),
            PDict [(PStr (str ''__line__''), PInt 4),
                   (PStr (str ''b''), PDict [(PStr (str ''c''), PInt 1)])])
       (Yield (PStr (str ''b''), PDict [(PStr (str ''c''), PInt 1)])
          (Yield (PStr (str ''c''), PInt 1) Stop))"
    by (simp add: example_mapping_def walk_defs)
  moreover have "(k, v) \<in> set (yields (recursive_items (PDict (xs @ (k, v) # ys))))"
    if "is_property k = Inr False"
      and "outcome (recursive_items (PDict (xs @ (k, v) # ys))) = None"
    using preorder_yields [OF that] by simp
  ultimately show ?thesis
    using preorder_yields [of k xs v ys] str_keys_total [of d] by blast
qed

theorem recursive_items_preorder_witness:
  "is_property (PStr (str ''b'')) = Inr False \<and>
   str_keys example_mapping \<and> is_dict example_mapping \<and>
   outcome (recursive_items (PDict ([(PStr (str ''__line__''), PInt 4)] @
      (PStr (str ''b''), PDict [(PStr (str ''c''), PInt 1)]) # []))) = None \<and>
   yields (recursive_items (PDict ([(PStr (str ''__line__''), PInt 4)] @
      (PStr (str ''b''), PDict [(PStr (str ''c''), PInt 1)]) # []))) =
     [(PStr (str ''b''), PDict [(PStr (str ''c''), PInt 1)]), (PStr (str ''c''), PInt 1)]"
  using recursive_items_preorder
          [of "PStr (str ''b'')" "[(PStr (str ''__line__''), PInt 4)]"
              "PDict [(PStr (str ''c''), PInt 1)]" "[]" example_mapping]
  by (simp add: example_mapping_def walk_defs)

text \<open>
  C10. An entry under an internal key adds nothing to the walk, whatever its value:
  the walk of a mapping with such an entry is the walk of the mapping without it, so
  a mapping stored there is never entered. At every depth: the walk of \<open>d\<close> and the
  walk of \<open>visible d\<close>, in which all that lies under internal keys is removed, yield
  the same keys in the same order and end the same way.
\<close>

theorem recursive_items_prunes_internal_subtree:
  "(is_property k = Inr True \<longrightarrow>
      recursive_items (PDict (xs @ (k, v) # ys)) = recursive_items (PDict (xs @ ys))) \<and>
   recursive_items (visible d) = gen_map (\<lambda>(k, v). (k, visible v)) (recursive_items d)"
  using skip_internal [of k xs v ys] walk_visible [of d] by blast

theorem recursive_items_prunes_internal_subtree_witness:
  "is_property (PStr (str ''__meta__'')) = Inr True \<and>
   recursive_items (PDict ([] @ (PStr (str ''__meta__''), PDict [(PStr (str ''x''), PInt 1)]) #
                                 [(PStr (str ''a''), PInt 2)])) =
     recursive_items (PDict ([] @ [(PStr (str ''a''), PInt 2)])) \<and>
   recursive_items (PDict internal_subtree_mapping) = Yield (PStr (str ''a''), PInt 2) Stop"
  using recursive_items_prunes_internal_subtree
          [of "PStr (str ''__meta__'')" "[]" "PDict [(PStr (str ''x''), PInt 1)]"
              "[(PStr (str ''a''), PInt 2)]"]
  by (simp add: internal_subtree_mapping_def walk_defs)

section \<open>The naming rule\<close>

lemma matchplay_loop_line:
  assumes "getitem our_vars (str ''__line__'') = Inr ln"
  shows "matchplay_loop file our_vars acc g =
         (case outcome g of
            Some e \<Rightarrow> Inl e
          | None \<Rightarrow> Inr (acc @ map (\<lambda>p. play_finding file ln (fst p))
                                 (filter (\<lambda>p. valid_identifier (fst p)) (yields g))))"
proof (induction g arbitrary: acc)
  case (Yield p g)
  obtain k v where p: "p = (k, v)" by (cases p)
  show ?case
  proof (cases "valid_identifier k")
    case True
    then obtain s where "k = PStr s" using valid_identifier_str by blast
    with True Yield assms show ?thesis
      by (simp add: p is_invalid_variable_name_total play_finding_def create_matcherror_def
            split: option.splits)
  next
    case False
    with Yield show ?thesis
      by (simp add: p is_invalid_variable_name_total split: option.splits)
  qed
qed simp_all

lemma matchplay_loop_member:
  assumes "matchplay_loop file our_vars acc g = Inr rs" and "r \<in> set rs"
  shows "r \<in> set acc \<or> (\<exists>ln. getitem our_vars (str ''__line__'') = Inr ln \<and> linenumber r = Some ln)"
  using assms
proof (induction g arbitrary: acc)
  case (Yield p g)
  obtain k v where p: "p = (k, v)" by (cases p)
  show ?case
  proof (cases "valid_identifier k")
    case False
    with Yield show ?thesis
      by (simp add: p is_invalid_variable_name_total)
  next
    case True
    then obtain s where k: "k = PStr s" using valid_identifier_str by blast
    show ?thesis
    proof (cases "getitem our_vars (str ''__line__'')")
      case (Inl e)
      with True Yield.prems show ?thesis
        by (simp add: p is_invalid_variable_name_total)
    next
      case (Inr ln)
      let ?m = "create_matcherror file (Some ln)
                  ((str ''Play defines variable '' @ [39] @ s) @ [39] @
                   str '' within 'vars' section that violates variable naming standards'')"
      from True Inr k Yield.prems(1)
      have "matchplay_loop file our_vars (acc @ [?m]) g = Inr rs"
        by (simp add: p is_invalid_variable_name_total)
      from Yield.IH [OF this Yield.prems(2)] Inr show ?thesis
        by (auto simp: create_matcherror_def)
    qed
  qed
qed simp_all

lemma matchyaml_loop_findings:
  "matchyaml_loop file acc g =
     (case outcome g of
        Some e \<Rightarrow> Inl e
      | None \<Rightarrow> Inr (acc @ map (\<lambda>p. file_finding file (fst p))
                             (filter (\<lambda>p. valid_identifier (fst p)) (yields g))))"
proof (induction g arbitrary: acc)
  case (Yield p g)
  obtain k v where p: "p = (k, v)" by (cases p)
  show ?case
  proof (cases "valid_identifier k")
    case True
    then obtain s where "k = PStr s" using valid_identifier_str by blast
    with True Yield show ?thesis
      by (simp add: p is_invalid_variable_name_total file_finding_def create_matcherror_def
            split: option.splits)
  next
    case False
    with Yield show ?thesis
      by (simp add: p is_invalid_variable_name_total split: option.splits)
  qed
qed simp_all

lemma returns_in_loop_found:
  assumes "p \<in> set (yields g)" and "is_invalid_variable_name (fst p) = Inr True"
  shows "returns_in_loop g = Inr True"
  using assms
proof (induction g)
  case (Yield q g)
  obtain k v where q: "q = (k, v)" by (cases q)
  from Yield show ?case
    by (cases "valid_identifier k") (auto simp: q is_invalid_variable_name_total)
qed simp_all

lemma returns_in_loop_none:
  assumes "outcome g = None" and "\<not> list_ex (\<lambda>p. valid_identifier (fst p)) (yields g)"
  shows "returns_in_loop g = Inr False"
  using assms
proof (induction g)
  case (Yield q g)
  obtain k v where q: "q = (k, v)" by (cases q)
  from Yield show ?case
    by (simp add: q is_invalid_variable_name_total)
qed simp_all

lemma valid_key_returns:
  assumes "reaches_valid_key d"
  shows "returns_in_loop (recursive_items d) = Inr True"
proof -
  from assms obtain p where "p \<in> set (yields (recursive_items d))" and "valid_identifier (fst p)"
    by (auto simp: reaches_valid_key_def list_ex_iff)
  then show ?thesis
    by (intro returns_in_loop_found [of p]) (simp_all add: is_invalid_variable_name_total)
qed

lemma no_valid_key_returns:
  assumes "outcome (recursive_items d) = None" and "\<not> reaches_valid_key d"
  shows "returns_in_loop (recursive_items d) = Inr False"
  using assms by (intro returns_in_loop_none) (simp_all add: reaches_valid_key_def)

subsection \<open>Variables files\<close>

lemma matchyaml_vars_findings:
  assumes "kind file = str ''vars''" and "parse_yaml_from_file (path file) = Inr d"
  shows "matchyaml parse_yaml_from_file super_matchyaml file =
           (case outcome (recursive_items d) of
              Some e \<Rightarrow> Inl e
            | None \<Rightarrow>
                Inr (map (\<lambda>p. file_finding file (fst p))
                       (filter (\<lambda>p. valid_identifier (fst p)) (yields (recursive_items d)))))"
  using assms matchyaml_loop_findings [of "file" "[]" "recursive_items d"]
  by (simp add: matchyaml_def split: option.splits)

text \<open>
  C1. \<open>matchyaml\<close> on the variables file \<open>{valid_name: 1, 2bad: 2}\<close> gives one
  finding, for \<open>valid_name\<close>, the key on which \<open>is_invalid_variable_name\<close> is True; it
  gives none for \<open>2bad\<close>, on which the validator is False. The call site tests the
  validator without negating it.
\<close>

theorem matchyaml_reports_valid_names:
  "matchyaml (\<lambda>p. Inr vars_document) super_matchyaml vars_file =
     Inr [\<lparr>filename = vars_file, linenumber = None,
           message = str ''File defines variable 'valid_name' that violates variable naming standards''\<rparr>] \<and>
   is_invalid_variable_name (PStr (str ''valid_name'')) = Inr True \<and>
   is_invalid_variable_name (PStr (str ''2bad'')) = Inr False"
  by (simp add: matchyaml_def vars_file_def vars_document_def eval_defs)

subsection \<open>Plays\<close>

text \<open>
  C3. On the play of \<open>FAIL_PLAY\<close>, \<open>matchplay\<close> raises AttributeError and returns no
  finding: the first key of \<open>vars\<close> is the boolean True, and \<open>is_property\<close> calls
  \<open>startswith\<close> on it.
\<close>

theorem matchplay_FAIL_PLAY_raises:
  "map (matchplay playbook_file) FAIL_PLAY = [Inl AttributeError]"
  by (simp add: FAIL_PLAY_def matchplay_def eval_defs)

lemma matchplay_no_vars:
  assumes "map_of data (PStr (str ''vars'')) = None"
  shows "matchplay file data = Inr []"
  using assms by (simp add: matchplay_def dict_get_def)

lemma matchplay_member:
  assumes "matchplay file data = Inr rs" and "r \<in> set rs"
  shows "\<exists>ln. getitem (dict_get data (str ''vars'') (PDict [])) (str ''__line__'') = Inr ln \<and>
              linenumber r = Some ln"
  using matchplay_loop_member [of "file" "dict_get data (str ''vars'') (PDict [])" "[]" _ rs r] assms
  by (simp add: matchplay_def Let_def)

lemma matchplay_no_KeyError:
  assumes "getitem (dict_get data (str ''vars'') (PDict [])) (str ''__line__'') = Inr ln"
  shows "matchplay file data =
           (case outcome (recursive_items (dict_get data (str ''vars'') (PDict []))) of
              Some e \<Rightarrow> Inl AttributeError
            | None \<Rightarrow>
                Inr (map (\<lambda>p. play_finding file ln (fst p))
                       (filter (\<lambda>p. valid_identifier (fst p))
                          (yields (recursive_items (dict_get data (str ''vars'') (PDict [])))))))"
  using matchplay_loop_line [OF assms, of "file" "[]"] walk_error
  by (auto simp: matchplay_def Let_def split: option.splits)

text \<open>
  C8. A play without a \<open>vars\<close> key gives the empty list. Every finding that
  \<open>matchplay\<close> returns carries as its line the value stored under \<open>__line__\<close> in the
  \<open>vars\<close> mapping. When that mapping has the \<open>__line__\<close> entry, the lookup does not
  fail: \<open>matchplay\<close> does not raise KeyError, and when the keys of the mapping are
  strings it returns the list of findings, one for each key the walk yields on which
  the validator is True.
\<close>

theorem matchplay_line_number:
  "(map_of data (PStr (str ''vars'')) = None \<longrightarrow> matchplay file data = Inr []) \<and>
   (matchplay file data = Inr rs \<and> r \<in> set rs \<longrightarrow>
      (\<exists>ln. getitem (dict_get data (str ''vars'') (PDict [])) (str ''__line__'') = Inr ln \<and>
            linenumber r = Some ln)) \<and>
   (getitem (dict_get data (str ''vars'') (PDict [])) (str ''__line__'') = Inr l \<longrightarrow>
      matchplay file data \<noteq> Inl KeyError \<and>
      (str_keys (dict_get data (str ''vars'') (PDict [])) \<longrightarrow>
         matchplay file data =
           Inr (map (\<lambda>p. play_finding file l (fst p))
                  (filter (\<lambda>p. valid_identifier (fst p))
                     (yields (recursive_items (dict_get data (str ''vars'') (PDict []))))))))"
proof -
  let ?v = "dict_get data (str ''vars'') (PDict [])"
  have c: "matchplay file data \<noteq> Inl KeyError \<and>
      (str_keys ?v \<longrightarrow>
         matchplay file data =
           Inr (map (\<lambda>p. play_finding file l (fst p))
                  (filter (\<lambda>p. valid_identifier (fst p)) (yields (recursive_items ?v)))))"
    if l: "getitem ?v (str ''__line__'') = Inr l"
  proof -
    from l have d: "is_dict ?v" by (cases ?v) simp_all
    show ?thesis
      using matchplay_no_KeyError [OF l, of "file"] str_keys_total [of ?v] d
      by (auto split: option.splits)
  qed
  with matchplay_no_vars [of data "file"] matchplay_member [of "file" data rs r]
  show ?thesis by blast
qed

theorem matchplay_line_number_witness:
  "map_of play_without_vars (PStr (str ''vars'')) = None \<and>
   matchplay playbook_file play_without_vars = Inr [] \<and>
   matchplay playbook_file play_with_vars =
     Inr [play_finding playbook_file (PInt 4) (PStr (str ''BadName''))] \<and>
   getitem (dict_get play_with_vars (str ''vars'') (PDict [])) (str ''__line__'') = Inr (PInt 4) \<and>
   linenumber (play_finding playbook_file (PInt 4) (PStr (str ''BadName''))) = Some (PInt 4) \<and>
   str_keys (dict_get play_with_vars (str ''vars'') (PDict [])) \<and>
   matchplay playbook_file play_with_vars \<noteq> Inl KeyError"
  using matchplay_line_number [of play_without_vars playbook_file]
        matchplay_line_number
          [of play_with_vars playbook_file
              "[play_finding playbook_file (PInt 4) (PStr (str ''BadName''))]"
              "play_finding playbook_file (PInt 4) (PStr (str ''BadName''))" "PInt 4"]
  by (simp add: play_without_vars_def play_with_vars_def matchplay_def play_finding_def eval_defs)

subsection \<open>Tasks\<close>

lemma matchtask_range:
  assumes "VariableNamingRule_matchtask task = Inr r"
  shows "r = PBool False \<or> r = PStr vars_message \<or> r = PStr set_fact_message \<or>
         r = PStr register_message"
  using assms
  by (auto simp: VariableNamingRule_matchtask_def Let_def
           split: sum.splits bool.splits if_splits)

lemma matchtask_vars_first:
  assumes "reaches_valid_key (dict_get task (str ''vars'') (PDict []))"
  shows "VariableNamingRule_matchtask task = Inr (PStr vars_message)"
  using valid_key_returns [OF assms]
  by (simp add: VariableNamingRule_matchtask_def Let_def)

lemma matchtask_set_fact_second:
  assumes "outcome (recursive_items (dict_get task (str ''vars'') (PDict []))) = None"
    and "\<not> reaches_valid_key (dict_get task (str ''vars'') (PDict []))"
    and "getitem (PDict task) (str ''action'') = Inr a"
    and "getitem a (str ''__ansible_module__'') = Inr (PStr (str ''set_fact''))"
    and "reaches_valid_key a"
  shows "VariableNamingRule_matchtask task = Inr (PStr set_fact_message)"
  using no_valid_key_returns [OF assms(1,2)] valid_key_returns [OF assms(5)] assms(3,4)
  by (simp add: VariableNamingRule_matchtask_def Let_def)

lemma matchtask_register_last:
  assumes "outcome (recursive_items (dict_get task (str ''vars'') (PDict []))) = None"
    and "\<not> reaches_valid_key (dict_get task (str ''vars'') (PDict []))"
    and "getitem (PDict task) (str ''action'') = Inr a"
    and "getitem a (str ''__ansible_module__'') = Inr m"
    and "m \<noteq> PStr (str ''set_fact'') \<or> (outcome (recursive_items a) = None \<and> \<not> reaches_valid_key a)"
  shows "VariableNamingRule_matchtask task =
           Inr (if truthy (dict_get task (str ''register'') PNone) \<and>
                   is_invalid_variable_name (dict_get task (str ''register'') PNone) = Inr True
                then PStr register_message else PBool False)"
proof -
  have "(if m = PStr (str ''set_fact'') then returns_in_loop (recursive_items a) else Inr False)
          = Inr False"
    using assms(5) no_valid_key_returns [of a] by auto
  with no_valid_key_returns [OF assms(1,2)] assms(3,4) show ?thesis
    by (simp add: VariableNamingRule_matchtask_def Let_def is_invalid_variable_name_total)
qed

lemma messages_distinct: "distinct [vars_message, set_fact_message, register_message]"
  by (simp add: vars_message_def set_fact_message_def register_message_def str_def)

text \<open>
  What \<open>matchtask\<close> does for every task. When it returns, the result is False or one
  of three message strings. Its checks run in a fixed order and stop at the first that
  fires, and each fires on a valid identifier: a valid key in the \<open>vars\<close> of the task
  gives the message of \<open>vars\<close>, whatever the action and the \<open>register\<close> target are;
  otherwise, for the module \<open>set_fact\<close> only, a valid key of the action gives the
  message of \<open>set_fact\<close>; otherwise a valid \<open>register\<close> target gives its message. The
  three messages differ.
\<close>

lemma matchtask_check_order:
  "(VariableNamingRule_matchtask task = Inr r \<longrightarrow>
      r = PBool False \<or> r = PStr vars_message \<or> r = PStr set_fact_message \<or>
      r = PStr register_message) \<and>
   (reaches_valid_key (dict_get task (str ''vars'') (PDict [])) \<longrightarrow>
      VariableNamingRule_matchtask task = Inr (PStr vars_message)) \<and>
   (outcome (recursive_items (dict_get task (str ''vars'') (PDict []))) = None \<and>
    \<not> reaches_valid_key (dict_get task (str ''vars'') (PDict [])) \<and>
    getitem (PDict task) (str ''action'') = Inr a \<and>
    getitem a (str ''__ansible_module__'') = Inr m \<longrightarrow>
      (m = PStr (str ''set_fact'') \<and> reaches_valid_key a \<longrightarrow>
         VariableNamingRule_matchtask task = Inr (PStr set_fact_message)) \<and>
      (m \<noteq> PStr (str ''set_fact'') \<or> (outcome (recursive_items a) = None \<and> \<not> reaches_valid_key a) \<longrightarrow>
         VariableNamingRule_matchtask task =
           Inr (if truthy (dict_get task (str ''register'') PNone) \<and>
                   is_invalid_variable_name (dict_get task (str ''register'') PNone) = Inr True
                then PStr register_message else PBool False))) \<and>
   distinct [vars_message, set_fact_message, register_message]"
  using matchtask_range [of task r] matchtask_vars_first [of task]
        matchtask_set_fact_second [of task a] matchtask_register_last [of task a m]
        messages_distinct
  by blast

lemmas task_defs =
  task_vars_and_register_def task_set_fact_def task_register_def command_action_def
  set_fact_action_def reaches_valid_key_def valid_identifier_def identifier_syntax_def
  letter_def digit_def VariableNamingRule_matchtask_def

lemma matchtask_check_order_examples:
  "reaches_valid_key (dict_get task_vars_and_register (str ''vars'') (PDict [])) \<and>
   is_invalid_variable_name (dict_get task_vars_and_register (str ''register'') PNone) = Inr True \<and>
   VariableNamingRule_matchtask task_vars_and_register = Inr (PStr vars_message) \<and>
   outcome (recursive_items (dict_get task_set_fact (str ''vars'') (PDict []))) = None \<and>
   \<not> reaches_valid_key (dict_get task_set_fact (str ''vars'') (PDict [])) \<and>
   getitem (PDict task_set_fact) (str ''action'') = Inr set_fact_action \<and>
   getitem set_fact_action (str ''__ansible_module__'') = Inr (PStr (str ''set_fact'')) \<and>
   reaches_valid_key set_fact_action \<and>
   VariableNamingRule_matchtask task_set_fact = Inr (PStr set_fact_message) \<and>
   getitem (PDict task_register) (str ''action'') = Inr command_action \<and>
   getitem command_action (str ''__ansible_module__'') = Inr (PStr (str ''command'')) \<and>
   PStr (str ''command'') \<noteq> PStr (str ''set_fact'') \<and>
   VariableNamingRule_matchtask task_register = Inr (PStr register_message)"
  using matchtask_check_order
          [of task_vars_and_register "PStr vars_message" command_action "PStr (str ''command'')"]
        matchtask_check_order
          [of task_set_fact "PStr set_fact_message" set_fact_action "PStr (str ''set_fact'')"]
        matchtask_check_order
          [of task_register "PStr register_message" command_action "PStr (str ''command'')"]
  by (simp add: task_defs eval_defs)

text \<open>
  C5. A task with the name \<open>2bad\<close> in its \<open>vars\<close> and as its \<open>register\<close> target, both
  breaking the naming rule, makes \<open>matchtask\<close> return False: no check reports it and
  the message of \<open>vars\<close> is not returned. A task with \<open>bad-name\<close> in its \<open>vars\<close> and
  the valid \<open>good_name\<close> as its \<open>register\<close> target gets the message of \<open>register\<close>.
  Each check tests the validator without negating it, and the validator is True on a
  valid name.
\<close>

theorem matchtask_invalid_names_not_reported:
  "VariableNamingRule_matchtask task_invalid_vars_and_register = Inr (PBool False) \<and>
   is_invalid_variable_name (PStr (str ''2bad'')) = Inr False \<and>
   VariableNamingRule_matchtask task_invalid_vars_valid_register = Inr (PStr register_message) \<and>
   is_invalid_variable_name (PStr (str ''bad-name'')) = Inr False \<and>
   is_invalid_variable_name (PStr (str ''good_name'')) = Inr True"
  by (simp add: task_invalid_vars_and_register_def task_invalid_vars_valid_register_def
        command_action_def VariableNamingRule_matchtask_def eval_defs)

subsection \<open>Keys that are not strings\<close>

text \<open>
  C9. A mapping with a key that is not a string makes \<open>recursive_items\<close> raise
  AttributeError: the pair is neither yielded nor skipped, although
  \<open>is_invalid_variable_name\<close> returns False on such a key. On a mapping with the key
  True, \<open>matchplay\<close>, \<open>matchtask\<close> and \<open>matchyaml\<close> raise too.
\<close>

theorem recursive_items_fails_on_non_string_key:
  "((k, v) \<in> set kvs \<and> \<not> is_str k \<longrightarrow>
      outcome (recursive_items (PDict kvs)) = Some AttributeError \<and>
      (k, v) \<notin> set (yields (recursive_items (PDict kvs))) \<and>
      is_invalid_variable_name k = Inr False) \<and>
   recursive_items bool_key_vars = Raise AttributeError \<and>
   matchplay file [(PStr (str ''vars''), bool_key_vars)] = Inl AttributeError \<and>
   VariableNamingRule_matchtask [(PStr (str ''vars''), bool_key_vars)] = Inl AttributeError \<and>
   matchyaml (\<lambda>p. Inr bool_key_vars) super_matchyaml vars_file = Inl AttributeError"
proof -
  have gen: "outcome (recursive_items (PDict kvs)) = Some AttributeError \<and>
      (k, v) \<notin> set (yields (recursive_items (PDict kvs))) \<and>
      is_invalid_variable_name k = Inr False"
    if mem: "(k, v) \<in> set kvs" and ns: "\<not> is_str k"
  proof -
    from ns have p: "is_property k = Inl AttributeError" by (cases k) simp_all
    from ns have i: "is_invalid_variable_name k = Inr False"
      by (cases k) (simp_all add: is_invalid_variable_name_def)
    have "(k, v) \<notin> set (yields (recursive_items (PDict kvs)))"
      using yielded_not_property [of "PDict kvs"] p by fastforce
    with nonstr_key_raises [OF mem p] i show ?thesis by simp
  qed
  have "recursive_items bool_key_vars = Raise AttributeError"
    by (simp add: bool_key_vars_def)
  moreover have "matchplay file [(PStr (str ''vars''), bool_key_vars)] = Inl AttributeError"
    by (simp add: bool_key_vars_def matchplay_def dict_get_def)
  moreover have "VariableNamingRule_matchtask [(PStr (str ''vars''), bool_key_vars)]
                   = Inl AttributeError"
    by (simp add: bool_key_vars_def VariableNamingRule_matchtask_def dict_get_def)
  moreover have "matchyaml (\<lambda>p. Inr bool_key_vars) super_matchyaml vars_file
                   = Inl AttributeError"
    by (simp add: bool_key_vars_def matchyaml_def vars_file_def)
  ultimately show ?thesis using gen by blast
qed

theorem recursive_items_fails_on_non_string_key_witness:
  "(PBool True, PBool False) \<in> set [(PStr (str ''a''), PInt 1), (PBool True, PBool False)] \<and>
   \<not> is_str (PBool True) \<and>
   outcome (recursive_items (PDict [(PStr (str ''a''), PInt 1), (PBool True, PBool False)]))
     = Some AttributeError \<and>
   is_invalid_variable_name (PBool True) = Inr False"
  using recursive_items_fails_on_non_string_key
          [of "PBool True" "PBool False" "[(PStr (str ''a''), PInt 1), (PBool True, PBool False)]"]
  by simp

section \<open>The shell rule\<close>

lemma any_in: "list_ex (\<lambda>b. b) (map (\<lambda>ch. ch \<in> set t) cs) = (set cs \<inter> set t \<noteq> {})"
  by (auto simp: list_ex_iff)

lemma str_items_strs: "str_items (map PStr ss) = Inr ss"
  by (induction ss) simp_all

lemma shell_not_shell:
  assumes "getitem (PDict task) (str ''action'') = Inr a"
    and "getitem a (str ''__ansible_module__'') = Inr m" and "m \<noteq> PStr (str ''shell'')"
  shows "UseCommandInsteadOfShellRule_matchtask unjinja task = Inr (PBool False)"
  using assms by (simp add: UseCommandInsteadOfShellRule_matchtask_def)

lemma shell_cmd:
  assumes "getitem (PDict task) (str ''action'') = Inr (PDict ad)"
    and "getitem (PDict ad) (str ''__ansible_module__'') = Inr (PStr (str ''shell''))"
    and "map_of ad (PStr (str ''cmd'')) = Some c" and "unjinja c = Inr t"
  shows "UseCommandInsteadOfShellRule_matchtask unjinja task =
           Inr (PBool (set shell_chars \<inter> set t = {}))"
  using assms by (simp add: UseCommandInsteadOfShellRule_matchtask_def any_in dict_get_def)

lemma shell_args:
  assumes "getitem (PDict task) (str ''action'') = Inr (PDict ad)"
    and "getitem (PDict ad) (str ''__ansible_module__'') = Inr (PStr (str ''shell''))"
    and "map_of ad (PStr (str ''cmd'')) = None"
    and "dict_get ad (str ''__ansible_arguments__'') (PList []) = PList (map PStr ss)"
    and "unjinja (PStr (intercalate (str '' '') ss)) = Inr t"
  shows "UseCommandInsteadOfShellRule_matchtask unjinja task =
           Inr (PBool (set shell_chars \<inter> set t = {}))"
  using assms
  by (simp add: UseCommandInsteadOfShellRule_matchtask_def any_in str_items_strs)

text \<open>
  C4. \<open>matchtask\<close> returns False for a task whose module is not \<open>shell\<close>. For the
  module \<open>shell\<close> it returns True exactly when the normalised command has none of the
  characters \<open>& | < > ; $ * [ ] { } ? `\<close> and newline, where the command is the
  \<open>cmd\<close> field when the action has one, and otherwise the arguments joined by single
  spaces.
\<close>

theorem UseCommandInsteadOfShellRule_matchtask_flags:
  "(getitem (PDict task) (str ''action'') = Inr a \<and>
    getitem a (str ''__ansible_module__'') = Inr m \<and> m \<noteq> PStr (str ''shell'') \<longrightarrow>
      UseCommandInsteadOfShellRule_matchtask unjinja task = Inr (PBool False)) \<and>
   (getitem (PDict task) (str ''action'') = Inr (PDict ad) \<and>
    getitem (PDict ad) (str ''__ansible_module__'') = Inr (PStr (str ''shell'')) \<longrightarrow>
      (map_of ad (PStr (str ''cmd'')) = Some c \<and> unjinja c = Inr t \<longrightarrow>
         UseCommandInsteadOfShellRule_matchtask unjinja task =
           Inr (PBool (set shell_chars \<inter> set t = {}))) \<and>
      (map_of ad (PStr (str ''cmd'')) = None \<and>
       dict_get ad (str ''__ansible_arguments__'') (PList []) = PList (map PStr ss) \<and>
       unjinja (PStr (intercalate (str '' '') ss)) = Inr t \<longrightarrow>
         UseCommandInsteadOfShellRule_matchtask unjinja task =
           Inr (PBool (set shell_chars \<inter> set t = {})))) \<and>
   set shell_chars = set (str ''&|<>;$*[]{}?`'') \<union> {10}"
proof -
  have "set shell_chars = set (str ''&|<>;$*[]{}?`'') \<union> {10}"
    by (auto simp: shell_chars_def str_def)
  with shell_not_shell [of task a m unjinja] shell_cmd [of task ad c unjinja t]
       shell_args [of task ad ss unjinja t]
  show ?thesis by blast
qed

lemmas shell_defs =
  shell_cmd_task_def shell_args_task_def command_task_def no_templates_def shell_chars_def
  UseCommandInsteadOfShellRule_matchtask_def

theorem UseCommandInsteadOfShellRule_matchtask_flags_witness:
  "UseCommandInsteadOfShellRule_matchtask no_templates (shell_cmd_task ''echo hello'')
     = Inr (PBool True) \<and>
   UseCommandInsteadOfShellRule_matchtask no_templates (shell_cmd_task ''echo hello | wc -l'')
     = Inr (PBool False) \<and>
   UseCommandInsteadOfShellRule_matchtask no_templates shell_args_task = Inr (PBool True) \<and>
   no_templates (PStr (intercalate (str '' '') [str ''echo'', str ''hello''])) = Inr (str ''echo hello'') \<and>
   getitem (PDict command_task) (str ''action'') =
     Inr (PDict [(PStr (str ''__ansible_module__''), PStr (str ''command'')),
                 (PStr (str ''cmd''), PStr (str ''echo hello | wc -l''))]) \<and>
   UseCommandInsteadOfShellRule_matchtask no_templates command_task = Inr (PBool False)"
  using UseCommandInsteadOfShellRule_matchtask_flags
          [of command_task
              "PDict [(PStr (str ''__ansible_module__''), PStr (str ''command'')),
                      (PStr (str ''cmd''), PStr (str ''echo hello | wc -l''))]"
              "PStr (str ''command'')" no_templates]
        UseCommandInsteadOfShellRule_matchtask_flags
          [of "shell_cmd_task ''echo hello''" _ _ no_templates
              "[(PStr (str ''__ansible_module__''), PStr (str ''shell'')),
                (PStr (str ''cmd''), PStr (str ''echo hello''))]"
              "PStr (str ''echo hello'')" "str ''echo hello''"]
        UseCommandInsteadOfShellRule_matchtask_flags
          [of shell_args_task _ _ no_templates
              "[(PStr (str ''__ansible_module__''), PStr (str ''shell'')),
                (PStr (str ''__ansible_arguments__''), PList [PStr (str ''echo''), PStr (str ''hello'')])]"
              _ "str ''echo hello''" "[str ''echo'', str ''hello'']"]
  by (simp add: shell_defs str_def dict_get_def)

end
